theory Spec2Isabelle
  imports Main "HOL-Library.Sublist"
begin

section \<open>Python values used by the backend\<close>

text \<open>
  Strings are \<open>string\<close>, the UTF-8 bytes of the Python \<open>str\<close>; in the modelled code
  the characters outside ASCII are the stopwatch emoji of the time-out texts, and
  white space is recognised by its encoding.
  Console output (\<open>print\<close>) is left out of the model; every other statement of the
  modelled functions is a branch of a definition below.
\<close>

text \<open>
  Exceptions that are instances of \<open>Exception\<close>. \<open>HTTPException\<close> is FastAPI's class
  (a subclass of \<open>Exception\<close>) with its status code and detail; \<open>OtherException\<close>
  stands for any other \<open>Exception\<close> subclass raised by a collaborator, with its
  \<open>str\<close>.
\<close>

datatype py_exn =
    ValueError string
  | RuntimeError string
  | TypeError string
  | TimeoutError string
  | ValidationError string
  | HTTPException nat string
  | OtherException string

definition digit_char :: "nat \<Rightarrow> char" where
  "digit_char d = ''0123456789'' ! d"

fun string_of_nat :: "nat \<Rightarrow> string" where
  "string_of_nat n =
     (if n < 10 then [digit_char n]
      else string_of_nat (n div 10) @ [digit_char (n mod 10)])"

declare string_of_nat.simps [simp del]

text \<open>\<open>str(e)\<close>; for \<open>HTTPException\<close> it is Starlette's \<open>"{status_code}: {detail}"\<close>.\<close>

fun str_exn :: "py_exn \<Rightarrow> string" where
  "str_exn (ValueError s) = s"
| "str_exn (RuntimeError s) = s"
| "str_exn (TypeError s) = s"
| "str_exn (TimeoutError s) = s"
| "str_exn (ValidationError s) = s"
| "str_exn (HTTPException c d) = string_of_nat c @ '': '' @ d"
| "str_exn (OtherException s) = s"

text \<open>
  \<open>except asyncio.TimeoutError\<close> matches the instances of that class, which
  \<open>TimeoutError\<close> stands for.
\<close>

fun is_timeout :: "py_exn \<Rightarrow> bool" where
  "is_timeout (TimeoutError s) = True"
| "is_timeout e = False"

text \<open>
  The white space of \<open>str.strip\<close> (the code points for which \<open>str.isspace\<close> holds),
  each in UTF-8: the ASCII characters 0x09--0x0D, 0x1C--0x1F and 0x20, then U+0085,
  U+00A0, U+1680, U+2000--U+200A, U+2028, U+2029, U+202F, U+205F and U+3000.
\<close>

definition whitespace :: "string list" where
  "whitespace =
     [[CHR 0x09], [CHR 0x0A], [CHR 0x0B], [CHR 0x0C], [CHR 0x0D],
      [CHR 0x1C], [CHR 0x1D], [CHR 0x1E], [CHR 0x1F], [CHR 0x20],
      [CHR 0xC2, CHR 0x85], [CHR 0xC2, CHR 0xA0],
      [CHR 0xE1, CHR 0x9A, CHR 0x80],
      [CHR 0xE2, CHR 0x80, CHR 0x80], [CHR 0xE2, CHR 0x80, CHR 0x81],
      [CHR 0xE2, CHR 0x80, CHR 0x82], [CHR 0xE2, CHR 0x80, CHR 0x83],
      [CHR 0xE2, CHR 0x80, CHR 0x84], [CHR 0xE2, CHR 0x80, CHR 0x85],
      [CHR 0xE2, CHR 0x80, CHR 0x86], [CHR 0xE2, CHR 0x80, CHR 0x87],
      [CHR 0xE2, CHR 0x80, CHR 0x88], [CHR 0xE2, CHR 0x80, CHR 0x89],
      [CHR 0xE2, CHR 0x80, CHR 0x8A],
      [CHR 0xE2, CHR 0x80, CHR 0xA8], [CHR 0xE2, CHR 0x80, CHR 0xA9],
      [CHR 0xE2, CHR 0x80, CHR 0xAF], [CHR 0xE2, CHR 0x81, CHR 0x9F],
      [CHR 0xE3, CHR 0x80, CHR 0x80]]"

text \<open>
  Removing characters of a set at the front of a string: as long as the string
  starts with the encoding of one of them, that encoding is dropped.
\<close>

function strip_front :: "string list \<Rightarrow> string \<Rightarrow> string" where
  "strip_front C s =
     (case find (\<lambda>w. w \<noteq> [] \<and> prefix w s) C of
        None \<Rightarrow> s
      | Some w \<Rightarrow> strip_front C (drop (length w) s))"
  by pat_completeness auto
termination
proof (relation "measure (\<lambda>(C, s). length s)")
  show "wf (measure (\<lambda>(C, s). length s))"
    by simp
next
  fix C :: "string list" and s w :: string
  assume "find (\<lambda>w. w \<noteq> [] \<and> prefix w s) C = Some w"
  then have "w \<noteq> []" and "prefix w s"
    by (auto simp: find_Some_iff)
  then have "length w \<le> length s"
    by (auto simp: prefix_length_le)
  with \<open>w \<noteq> []\<close> show "((C, drop (length w) s), (C, s)) \<in> measure (\<lambda>(C, s). length s)"
    by (cases w) auto
qed

declare strip_front.simps [simp del]

text \<open>
  \<open>str.lstrip\<close>, \<open>str.rstrip\<close> (the same from the end of the string, read backwards)
  and \<open>str.strip\<close>.
\<close>

definition lstrip :: "string \<Rightarrow> string" where
  "lstrip s = strip_front whitespace s"

definition rstrip :: "string \<Rightarrow> string" where
  "rstrip s = rev (strip_front (map rev whitespace) (rev s))"

definition strip :: "string \<Rightarrow> string" where
  "strip s = lstrip (rstrip s)"

text \<open>\<open>sub in s\<close> on strings: \<open>sub\<close> occurs as a contiguous piece of \<open>s\<close>.\<close>

fun py_in :: "string \<Rightarrow> string \<Rightarrow> bool" where
  "py_in sub [] = (sub = [])"
| "py_in sub (c # cs) = (prefix sub (c # cs) \<or> py_in sub cs)"

text \<open>Truth value of an \<open>Optional[str]\<close>: \<open>None\<close> and the empty string are false.\<close>

fun truthy :: "string option \<Rightarrow> bool" where
  "truthy None = False"
| "truthy (Some s) = (s \<noteq> [])"

section \<open>The connection manager (utils/mcp\_manager.py)\<close>

type_synonym environ = "string \<rightharpoonup> string"

definition getenv :: "environ \<Rightarrow> string \<Rightarrow> string option" where
  "getenv ev k = ev k"

definition getenv_default :: "environ \<Rightarrow> string \<Rightarrow> string \<Rightarrow> string" where
  "getenv_default ev k d = (case ev k of None \<Rightarrow> d | Some v \<Rightarrow> v)"

text \<open>
  \<open>_create_mcp_environment\<close>: the dictionary literal \<open>base_env\<close> in insertion order,
  then the comprehension that keeps the entries whose value is not \<open>None\<close>.
\<close>

definition base_env :: "environ \<Rightarrow> (string \<times> string option) list" where
  "base_env ev =
     [(''API_TOKEN'', getenv ev ''BRIGHTDATA_API_TOKEN''),
      (''BRIGHTDATA_API_TOKEN'', getenv ev ''BRIGHTDATA_API_TOKEN''),
      (''BROWSER_AUTH'', getenv ev ''BROWSER_AUTH''),
      (''WEB_UNLOCKER_ZONE'', Some (getenv_default ev ''WEB_UNLOCKER_ZONE'' ''web_unlocker1'')),
      (''NODE_ENV'', Some (getenv_default ev ''NODE_ENV'' ''production'')),
      (''PATH'', Some (getenv_default ev ''PATH'' '''')),
      (''NPM_CONFIG_REGISTRY'', Some ''https://registry.npmjs.org/''),
      (''NODE_OPTIONS'', Some ''--max-old-space-size=2048'')]"

fun filter_none :: "(string \<times> string option) list \<Rightarrow> (string \<times> string) list" where
  "filter_none [] = []"
| "filter_none ((k, None) # kvs) = filter_none kvs"
| "filter_none ((k, Some v) # kvs) = (k, v) # filter_none kvs"

definition create_mcp_environment :: "environ \<Rightarrow> (string \<times> string) list" where
  "create_mcp_environment ev = filter_none (base_env ev)"

text \<open>\<open>StdioServerParameters\<close>: the launch specification of the subprocess.\<close>

record params =
  command :: string
  args :: "string list"
  env :: "(string \<times> string) list"

text \<open>
  A \<open>subprocess.Popen\<close> object as \<open>_cleanup\<close> uses it: what \<open>terminate()\<close> raises,
  what \<open>poll()\<close> returns afterwards (\<open>True\<close>: still running, \<open>poll() is None\<close>) or
  raises, and what \<open>kill()\<close> raises.
\<close>

record process =
  terminate_exn :: "py_exn option"
  poll_alive :: "py_exn + bool"
  kill_exn :: "py_exn option"

text \<open>
  The toolset handle is an object; \<open>handle\<close> is its identity. The toolset, the
  connection parameters and the process are objects without a truth value of their
  own, so \<open>if x\<close> and \<open>if not x\<close> on them test for \<open>None\<close>. \<open>connect\<close> and
  \<open>disconnect\<close> run their whole body under the manager's lock: each is one step on
  the manager.
\<close>

type_synonym handle = nat

record manager =
  toolset :: "handle option"
  process :: "process option"
  connection_params :: "params option"
  is_connected :: bool
  connection_attempted :: bool

text \<open>\<open>__init__\<close>.\<close>

definition init_manager :: manager where
  "init_manager =
     \<lparr>toolset = None, process = None, connection_params = None,
      is_connected = False, connection_attempted = False\<rparr>"

text \<open>
  What the two constructors of the tool library do when \<open>connect\<close> calls them:
  \<open>StdioServerParameters(...)\<close> raises or builds the record from its arguments,
  \<open>MCPToolset(...)\<close> raises or returns a new object.
\<close>

record conn_world =
  params_exn :: "py_exn option"
  new_toolset :: "py_exn + handle"

text \<open>What a \<open>connect\<close> call did besides changing the manager.\<close>

datatype conn_effect = Validation | NewParams | NewToolset | Cleanup

text \<open>Lines 41--47 of \<open>connect\<close>.\<close>

definition validate_environment :: "environ \<Rightarrow> py_exn + unit" where
  "validate_environment ev =
     (let api_token = getenv ev ''BRIGHTDATA_API_TOKEN'';
          browser_auth = getenv ev ''BROWSER_AUTH''
      in if \<not> truthy api_token
         then Inl (ValueError ''BRIGHTDATA_API_TOKEN not found in environment'')
         else if \<not> truthy browser_auth
         then Inl (ValueError ''BROWSER_AUTH not found in environment'')
         else Inr ())"

text \<open>
  \<open>_test_connection\<close>: the \<open>RuntimeError\<close> for a missing toolset is raised inside its
  own \<open>try\<close> and caught there.
\<close>

definition test_connection :: "manager \<Rightarrow> py_exn + unit" where
  "test_connection m =
     (case (if toolset m = None then Inl (RuntimeError ''Toolset not created'') else Inr ()) of
        Inl e \<Rightarrow> Inr ()
      | Inr u \<Rightarrow> Inr u)"

text \<open>
  The inner \<open>try\<close> of \<open>_cleanup\<close>: terminate, wait, and kill the process when it is
  still running.
\<close>

definition stop_process :: "process \<Rightarrow> py_exn + unit" where
  "stop_process p =
     (case terminate_exn p of
        Some e \<Rightarrow> Inl e
      | None \<Rightarrow>
          (case poll_alive p of
             Inl e \<Rightarrow> Inl e
           | Inr alive \<Rightarrow>
               if alive then (case kill_exn p of Some e \<Rightarrow> Inl e | None \<Rightarrow> Inr ())
               else Inr ()))"

text \<open>
  \<open>_cleanup\<close>. The inner handler catches what stopping the process raises; the five
  assignments follow; the outer handler would keep the state as it is at the raise.
\<close>

definition cleanup :: "manager \<Rightarrow> py_exn + manager" where
  "cleanup m =
     (case (case process m of
              None \<Rightarrow> (Inr () :: py_exn + unit)
            | Some p \<Rightarrow> (case stop_process p of Inl e \<Rightarrow> Inr () | Inr u \<Rightarrow> Inr u)) of
        Inl e \<Rightarrow> Inr m
      | Inr u \<Rightarrow>
          Inr (m\<lparr>toolset := None, process := None, connection_params := None,
                 is_connected := False, connection_attempted := False\<rparr>))"

definition disconnect :: "manager \<Rightarrow> py_exn + manager" where
  "disconnect m = cleanup m"

text \<open>The test of the two \<open>if\<close>s in the handler of \<open>connect\<close>.\<close>

definition list_roots_error :: "py_exn \<Rightarrow> bool" where
  "list_roots_error e \<longleftrightarrow>
     py_in ''List roots not supported'' (str_exn e) \<or> py_in ''MCP error -32600'' (str_exn e)"

text \<open>
  The \<open>try\<close> block of \<open>connect\<close>: the manager at the exit, what was done, and the
  exception raised or the value returned.
\<close>

definition connect_try ::
  "conn_world \<Rightarrow> environ \<Rightarrow> manager \<Rightarrow> manager \<times> conn_effect list \<times> (py_exn + handle option)" where
  "connect_try w ev m =
     (case validate_environment ev of
        Inl e \<Rightarrow> (m, [Validation], Inl e)
      | Inr u \<Rightarrow>
          let mcp_env = create_mcp_environment ev in
          (case (if connection_params m = None
                 then (case params_exn w of
                         Some e \<Rightarrow> Inl e
                       | None \<Rightarrow>
                           Inr (m\<lparr>connection_params :=
                                  Some \<lparr>command = ''npx'', args = [''-y'', ''@brightdata/mcp''],
                                        env = mcp_env\<rparr>\<rparr>,
                                [NewParams]))
                 else Inr (m, [])) of
             Inl e \<Rightarrow> (m, [Validation, NewParams], Inl e)
           | Inr (m1, l1) \<Rightarrow>
               (case (if toolset m1 = None
                      then (case new_toolset w of
                              Inl e \<Rightarrow> Inl e
                            | Inr h \<Rightarrow> Inr (m1\<lparr>toolset := Some h\<rparr>))
                      else Inr m1) of
                  Inl e \<Rightarrow> (m1, Validation # l1 @ [NewToolset], Inl e)
                | Inr m2 \<Rightarrow>
                    (case test_connection m2 of
                       Inl e \<Rightarrow> (m2, Validation # l1 @ (if toolset m1 = None then [NewToolset] else []), Inl e)
                     | Inr u \<Rightarrow>
                         (m2\<lparr>is_connected := True\<rparr>,
                          Validation # l1 @ (if toolset m1 = None then [NewToolset] else []),
                          Inr (toolset m2))))))"

text \<open>The \<open>except Exception as e\<close> block of \<open>connect\<close>, with its two tests in order.\<close>

definition connect_except ::
  "py_exn \<Rightarrow> manager \<Rightarrow> py_exn + (handle option \<times> manager \<times> conn_effect list)" where
  "connect_except e m =
     (if list_roots_error e \<and> toolset m \<noteq> None
      then Inr (toolset m, m\<lparr>is_connected := True\<rparr>, [])
      else if toolset m \<noteq> None \<and> list_roots_error e
      then Inr (toolset m, m\<lparr>is_connected := True\<rparr>, [])
      else (case cleanup m of
              Inl e' \<Rightarrow> Inl e'
            | Inr m' \<Rightarrow> Inr (None, m', [Cleanup])))"

text \<open>
  \<open>connect\<close>, inside the lock: the returned value, the manager afterwards, and what the
  call did.
\<close>

definition connect ::
  "conn_world \<Rightarrow> environ \<Rightarrow> manager \<Rightarrow> py_exn + (handle option \<times> manager \<times> conn_effect list)" where
  "connect w ev m =
     (if is_connected m \<and> toolset m \<noteq> None then Inr (toolset m, m, [])
      else if connection_attempted m \<and> \<not> is_connected m then Inr (None, m, [])
      else
        (case connect_try w ev (m\<lparr>connection_attempted := True\<rparr>) of
           (m1, l, Inr r) \<Rightarrow> Inr (r, m1, l)
         | (m1, l, Inl e) \<Rightarrow>
             (case connect_except e m1 of
                Inl e' \<Rightarrow> Inl e'
              | Inr (r, m2, l2) \<Rightarrow> Inr (r, m2, l @ l2))))"

text \<open>The property \<open>is_connected\<close>.\<close>

definition is_connected_prop :: "manager \<Rightarrow> bool" where
  "is_connected_prop m \<longleftrightarrow> is_connected m \<and> toolset m \<noteq> None"

text \<open>
  The states of the singleton manager: the one \<open>__init__\<close> builds, and every state
  that a call of \<open>connect\<close> or \<open>disconnect\<close> leaves behind. Nothing else writes the
  fields of the manager.
\<close>

inductive reachable :: "manager \<Rightarrow> bool" where
  reachable_init: "reachable init_manager"
| reachable_connect: "reachable m \<Longrightarrow> connect w ev m = Inr (r, m', l) \<Longrightarrow> reachable m'"
| reachable_disconnect: "reachable m \<Longrightarrow> disconnect m = Inr m' \<Longrightarrow> reachable m'"

section \<open>The chat endpoint (app/main.py)\<close>

text \<open>
  \<open>ChatMessage\<close>: \<open>session_id\<close> is \<open>Optional[str]\<close> with the default \<open>"default"\<close>.
  A request body leaves the field out, sends \<open>null\<close>, or sends a string.
\<close>

record ChatMessage =
  message :: string
  session_id :: "string option"

datatype sid_field = Omitted | Null | Given string

fun ChatMessage_new :: "string \<Rightarrow> sid_field \<Rightarrow> ChatMessage" where
  "ChatMessage_new txt Omitted = \<lparr>message = txt, session_id = Some ''default''\<rparr>"
| "ChatMessage_new txt Null = \<lparr>message = txt, session_id = None\<rparr>"
| "ChatMessage_new txt (Given s) = \<lparr>message = txt, session_id = Some s\<rparr>"

text \<open>
  \<open>ChatResponse\<close>: all three fields are \<open>str\<close>, so the constructor rejects
  \<open>session_id=None\<close> (the text of the error stands for pydantic's report).
\<close>

record ChatResponse =
  response :: string
  response_session_id :: string
  status :: string

fun ChatResponse_new :: "string \<Rightarrow> string option \<Rightarrow> string \<Rightarrow> py_exn + ChatResponse" where
  "ChatResponse_new r None st = Inl (ValidationError ''session_id: Input should be a valid string'')"
| "ChatResponse_new r (Some s) st =
     Inr \<lparr>response = r, response_session_id = s, status = st\<rparr>"

text \<open>
  The shapes of an event that \<open>run_agent_with_events\<close> probes with \<open>hasattr\<close> and
  \<open>isinstance\<close>. A part carries its \<open>text\<close> (\<open>None\<close>: no attribute, or \<open>None\<close>).
  A content value has \<open>parts\<close> (possibly \<open>None\<close>), or only \<open>text\<close>, or is a string,
  or is anything else (such as \<open>None\<close>). A message value is an object (with its
  \<open>content\<close> attribute when it has one), a string, or \<open>None\<close>. In an event each of
  the attributes \<open>content\<close> and \<open>message\<close> is \<open>None\<close> when the event has no such
  attribute; \<open>ev_text\<close> is \<open>None\<close> when there is no attribute \<open>text\<close> or it is
  \<open>None\<close>.
\<close>

datatype part = Part (part_text: "string option")

datatype content =
    ContentParts "part list option"
  | ContentText "string option"
  | ContentStr string
  | ContentOther

datatype message_value =
    MessageObj "content option"
  | MessageStr string
  | MessageNone

record event =
  ev_content :: "content option"
  ev_message :: "message_value option"
  ev_text :: "string option"

abbreviation nl :: string where
  "nl \<equiv> [CHR 0x0A]"

text \<open>\<open>str(x) + "\n"\<close> when \<open>x\<close> is true, nothing otherwise.\<close>

fun text_line :: "string option \<Rightarrow> string" where
  "text_line None = []"
| "text_line (Some t) = (if t \<noteq> [] then t @ nl else [])"

text \<open>The loop \<open>for part in ....parts\<close>.\<close>

fun parts_text :: "part list \<Rightarrow> string" where
  "parts_text [] = []"
| "parts_text (p # ps) = text_line (part_text p) @ parts_text ps"

text \<open>The branch \<open>hasattr(event, 'content')\<close>; iterating over \<open>None\<close> raises.\<close>

fun content_direct :: "content \<Rightarrow> py_exn + string" where
  "content_direct (ContentParts None) = Inl (TypeError '''NoneType' object is not iterable'')"
| "content_direct (ContentParts (Some ps)) = Inr (parts_text ps)"
| "content_direct (ContentText t) = Inr (text_line t)"
| "content_direct (ContentStr s) = Inr (s @ nl)"
| "content_direct ContentOther = Inr []"

text \<open>The branch \<open>hasattr(event.message, 'content')\<close>, which has no string case.\<close>

fun content_nested :: "content \<Rightarrow> py_exn + string" where
  "content_nested (ContentParts None) = Inl (TypeError '''NoneType' object is not iterable'')"
| "content_nested (ContentParts (Some ps)) = Inr (parts_text ps)"
| "content_nested (ContentText t) = Inr (text_line t)"
| "content_nested (ContentStr s) = Inr []"
| "content_nested ContentOther = Inr []"

text \<open>Truth value of \<open>event.message\<close>.\<close>

fun message_true :: "message_value option \<Rightarrow> bool" where
  "message_true None = False"
| "message_true (Some (MessageObj c)) = True"
| "message_true (Some (MessageStr s)) = (s \<noteq> [])"
| "message_true (Some MessageNone) = False"

fun message_text :: "message_value option \<Rightarrow> py_exn + string" where
  "message_text (Some (MessageObj (Some c))) = content_nested c"
| "message_text (Some (MessageObj None)) = Inr []"
| "message_text (Some (MessageStr s)) = Inr (s @ nl)"
| "message_text (Some MessageNone) = Inr []"
| "message_text None = Inr []"

text \<open>The body of the \<open>async for\<close>: what one event adds to \<open>response_text\<close>.\<close>

definition event_text :: "event \<Rightarrow> py_exn + string" where
  "event_text e =
     (case ev_content e of
        Some c \<Rightarrow> content_direct c
      | None \<Rightarrow>
          if message_true (ev_message e) then message_text (ev_message e)
          else Inr (text_line (ev_text e)))"

text \<open>
  The \<open>async for\<close> over the events that arrive: the buffer afterwards, and the
  exception when the body raised (the remaining events are then not read).
\<close>

fun consume :: "event list \<Rightarrow> string \<Rightarrow> string \<times> py_exn option" where
  "consume [] buf = (buf, None)"
| "consume (e # es) buf =
     (case event_text e of
        Inl x \<Rightarrow> (buf, Some x)
      | Inr t \<Rightarrow> consume es (buf @ t))"

text \<open>
  How the event stream of one request ends after the events it delivered: it is
  exhausted, the deadline of \<open>asyncio.wait_for\<close> elapses while the next event is
  awaited, or the runner raises.
\<close>

datatype stream_end = Completed | DeadlineElapsed | Raised py_exn

text \<open>
  The collaborators of one \<open>chat\<close> call: what obtaining the shared session service
  and runner raises, what \<open>create_session\<close> raises or the identifier of the session
  it creates, and the run of the agent.
\<close>

record chat_world =
  services_exn :: "py_exn option"
  new_session_id :: "py_exn + string"
  run_events :: "event list"
  run_end :: stream_end

record session =
  sess_id :: string
  user_id :: string

datatype chat_effect = CreateSession string | RunAsync string string string

definition timeout_seconds :: nat where
  "timeout_seconds = 90"

text \<open>The stopwatch emoji, U+23F1 U+FE0F, in UTF-8.\<close>

definition stopwatch :: string where
  "stopwatch = [CHR 0xE2, CHR 0x8F, CHR 0xB1, CHR 0xEF, CHR 0xB8, CHR 0x8F]"

definition timeout_note :: string where
  "timeout_note =
     nl @ nl @ stopwatch @ '' **Note**: Request timed out after '' @ string_of_nat timeout_seconds
     @ '' seconds. Showing partial results gathered so far.''"

definition timeout_message :: string where
  "timeout_message =
     stopwatch @ '' **Request timed out** after '' @ string_of_nat timeout_seconds
     @ '' seconds. The comparison is taking longer than expected. Please try a more specific query or try again later.''"

definition error_prefix :: string where
  "error_prefix = ''I encountered an error while processing your request: ''"

definition fallback_message :: string where
  "fallback_message =
     ''I processed your request, but I'm having trouble generating a response. Please try again or rephrase your question.''"

text \<open>
  \<open>asyncio.wait_for(run_agent_with_events(), timeout=timeout_seconds)\<close>: the buffer
  when the wait ends, and the exception it ends with, if any. The deadline can only
  elapse while an event is awaited, so the buffer holds whole events.
\<close>

definition wait_for_run :: "chat_world \<Rightarrow> string \<Rightarrow> string \<times> (py_exn + unit)" where
  "wait_for_run w buf =
     (case consume (run_events w) buf of
        (b, Some x) \<Rightarrow> (b, Inl x)
      | (b, None) \<Rightarrow>
          (case run_end w of
             Completed \<Rightarrow> (b, Inr ())
           | DeadlineElapsed \<Rightarrow> (b, Inl (TimeoutError []))
           | Raised x \<Rightarrow> (b, Inl x)))"

text \<open>
  Lines 482--536: \<open>response_text\<close> after the inner \<open>try\<close> with its two handlers.
\<close>

definition run_with_timeout :: "chat_world \<Rightarrow> string" where
  "run_with_timeout w =
     (case wait_for_run w [] of
        (b, Inr u) \<Rightarrow> b
      | (b, Inl x) \<Rightarrow>
          if is_timeout x
          then (if strip b \<noteq> [] then b @ timeout_note else timeout_message)
          else error_prefix @ str_exn x)"

text \<open>\<open>f'user_{message.session_id}'\<close>.\<close>

fun user_of :: "string option \<Rightarrow> string" where
  "user_of None = ''user_None''"
| "user_of (Some s) = ''user_'' @ s"

text \<open>The body of the outer \<open>try\<close> of \<open>chat\<close>.\<close>

definition chat_body :: "chat_world \<Rightarrow> ChatMessage \<Rightarrow> chat_effect list \<times> (py_exn + ChatResponse)" where
  "chat_body w msg =
     (if strip (message msg) = [] then ([], Inl (HTTPException 400 ''No message provided''))
      else
        (case services_exn w of
           Some x \<Rightarrow> ([], Inl x)
         | None \<Rightarrow>
             (case new_session_id w of
                Inl x \<Rightarrow> ([], Inl x)
              | Inr i \<Rightarrow>
                  let sess = \<lparr>sess_id = i, user_id = user_of (session_id msg)\<rparr>;
                      response_text = run_with_timeout w;
                      response_text = strip response_text;
                      response_text = (if response_text = [] then fallback_message else response_text)
                  in ([CreateSession (user_id sess), RunAsync (sess_id sess) (user_id sess) (message msg)],
                      ChatResponse_new response_text (session_id msg) ''success''))))"

text \<open>
  \<open>chat\<close>: the outer handler \<open>except Exception\<close> turns whatever the body raised into
  \<open>HTTPException(status_code=500, ...)\<close>.
\<close>

definition chat :: "chat_world \<Rightarrow> ChatMessage \<Rightarrow> chat_effect list \<times> (py_exn + ChatResponse)" where
  "chat w msg =
     (case chat_body w msg of
        (l, Inr r) \<Rightarrow> (l, Inr r)
      | (l, Inl x) \<Rightarrow> (l, Inl (HTTPException 500 (''Internal server error: '' @ str_exn x))))"

text \<open>The status code of the \<open>HTTPException\<close> that a call of \<open>chat\<close> raised, if it raised.\<close>

fun raised_status :: "py_exn + ChatResponse \<Rightarrow> nat option" where
  "raised_status (Inl (HTTPException c d)) = Some c"
| "raised_status (Inl e) = None"
| "raised_status (Inr r) = None"

section \<open>Scenarios\<close>

text \<open>A call of \<open>connect\<close> on the manager that an earlier call left behind.\<close>

definition connect_again ::
  "py_exn + (handle option \<times> manager \<times> conn_effect list) \<Rightarrow> conn_world \<Rightarrow> environ
   \<Rightarrow> py_exn + (handle option \<times> manager \<times> conn_effect list)" where
  "connect_again r w ev = (case r of Inl e \<Rightarrow> Inl e | Inr (h, m, l) \<Rightarrow> connect w ev m)"

text \<open>A call of \<open>disconnect\<close> on the manager that an earlier call left behind.\<close>

definition disconnect_again :: "py_exn + manager \<Rightarrow> py_exn + manager" where
  "disconnect_again r = (case r of Inl e \<Rightarrow> Inl e | Inr m \<Rightarrow> disconnect m)"

text \<open>A manager whose process cannot be terminated.\<close>

definition manager_stuck_process :: manager where
  "manager_stuck_process =
     \<lparr>toolset = Some 1,
      process = Some \<lparr>terminate_exn = Some (OtherException ''No such process''),
                      poll_alive = Inr True, kill_exn = Some (OtherException ''No such process'')\<rparr>,
      connection_params = None, is_connected = True, connection_attempted = True\<rparr>"

text \<open>An environment with both secrets, and tool libraries that work or fail.\<close>

definition env_secrets :: environ where
  "env_secrets = map_of [(''BRIGHTDATA_API_TOKEN'', ''tok''), (''BROWSER_AUTH'', ''auth'')]"

definition world_ok :: conn_world where
  "world_ok = \<lparr>params_exn = None, new_toolset = Inr 1\<rparr>"

definition world_spawn_fails :: conn_world where
  "world_spawn_fails =
     \<lparr>params_exn = None, new_toolset = Inl (OtherException ''npx: command not found'')\<rparr>"


definition params_npx :: params where
  "params_npx =
     \<lparr>command = ''npx'', args = [''-y'', ''@brightdata/mcp''],
      env = create_mcp_environment env_secrets\<rparr>"

definition manager_connected :: manager where
  "manager_connected =
     \<lparr>toolset = Some 1, process = None, connection_params = Some params_npx,
      is_connected = True, connection_attempted = True\<rparr>"

text \<open>Events with one text part, and events that carry no text.\<close>

definition text_event :: "string \<Rightarrow> event" where
  "text_event t =
     \<lparr>ev_content = Some (ContentParts (Some [Part (Some t)])), ev_message = None, ev_text = None\<rparr>"


definition run_world :: "event list \<Rightarrow> stream_end \<Rightarrow> chat_world" where
  "run_world es fin =
     \<lparr>services_exn = None, new_session_id = Inr ''s-1'', run_events = es, run_end = fin\<rparr>"

definition hello_world :: chat_world where
  "hello_world = run_world [text_event ''Hello '', text_event ''World''] DeadlineElapsed"

section \<open>Notions for the proofs\<close>

text \<open>No encoding in the list starts another one; a string made of encodings of the list.\<close>

definition prefix_code :: "string list \<Rightarrow> bool" where
  "prefix_code C \<longleftrightarrow> (\<forall>w \<in> set C. \<forall>v \<in> set C. prefix v w \<longrightarrow> v = w)"

definition code_words :: "string list \<Rightarrow> string \<Rightarrow> bool" where
  "code_words C s \<longleftrightarrow> (\<exists>ws. set ws \<subseteq> set C \<and> s = concat ws)"

section \<open>Auxiliary facts\<close>

subsection \<open>Stripping\<close>

lemma strip_front_None:
  "find (\<lambda>w. w \<noteq> [] \<and> prefix w s) C = None \<Longrightarrow> strip_front C s = s"
  by (subst strip_front.simps) simp

lemma strip_front_Some:
  "find (\<lambda>w. w \<noteq> [] \<and> prefix w s) C = Some w \<Longrightarrow>
   strip_front C s = strip_front C (drop (length w) s)"
  by (subst strip_front.simps) simp

lemma strip_front_Nil: "strip_front C [] = []"
proof (cases "find (\<lambda>w. w \<noteq> [] \<and> prefix w []) C")
  case None
  then show ?thesis by (rule strip_front_None)
next
  case (Some w)
  then have "w \<noteq> [] \<and> prefix w []" by (auto simp: find_Some_iff)
  then show ?thesis by simp
qed

lemma find_code_word:
  assumes "prefix_code C" and "w \<in> set C" and "w \<noteq> []"
  shows "find (\<lambda>v. v \<noteq> [] \<and> prefix v (w @ s)) C = Some w"
proof (cases "find (\<lambda>v. v \<noteq> [] \<and> prefix v (w @ s)) C")
  case None
  then show ?thesis using assms(2,3) by (auto simp: find_None_iff)
next
  case (Some v)
  then have v: "v \<in> set C" "prefix v (w @ s)"
    by (auto simp: find_Some_iff in_set_conv_nth)
  have "prefix w (w @ s)" by simp
  with v(2) have "prefix v w \<or> prefix w v"
    by (rule prefix_same_cases [THEN disjE]) auto
  then have "v = w" using assms(1,2) v(1) by (auto simp: prefix_code_def)
  then show ?thesis using Some by simp
qed

lemma strip_front_code_word:
  assumes "prefix_code C" and "w \<in> set C"
  shows "strip_front C (w @ s) = strip_front C s"
proof (cases "w = []")
  case True
  then show ?thesis by simp
next
  case False
  then show ?thesis
    using strip_front_Some [OF find_code_word [OF assms False, of s]] by simp
qed

text \<open>What is dropped is a run of encodings of the list.\<close>

lemma strip_front_split:
  "\<exists>t. s = t @ strip_front C s \<and> code_words C t"
proof (induction C s rule: strip_front.induct)
  case (1 C s)
  show ?case
  proof (cases "find (\<lambda>w. w \<noteq> [] \<and> prefix w s) C")
    case None
    then have "strip_front C s = s" by (rule strip_front_None)
    moreover have "code_words C []"
      by (auto simp: code_words_def intro: exI [of _ "[]"])
    ultimately show ?thesis by auto
  next
    case (Some w)
    then have w: "w \<in> set C" "prefix w s"
      by (auto simp: find_Some_iff in_set_conv_nth)
    then have s: "s = w @ drop (length w) s" by (auto simp: prefix_def)
    from "1" [OF Some] obtain t where
      t: "drop (length w) s = t @ strip_front C (drop (length w) s)" "code_words C t"
      by blast
    from t(2) obtain ws where ws: "set ws \<subseteq> set C" "t = concat ws"
      by (auto simp: code_words_def)
    have "code_words C (w @ t)"
      unfolding code_words_def using ws w(1) by (intro exI [of _ "w # ws"]) simp
    moreover have "s = (w @ t) @ strip_front C s"
      using s t(1) strip_front_Some [OF Some] by simp
    ultimately show ?thesis by blast
  qed
qed

lemma strip_front_words:
  assumes "prefix_code C" and "code_words C t"
  shows "strip_front C (t @ s) = strip_front C s"
proof -
  from assms(2) obtain ws where "set ws \<subseteq> set C" "t = concat ws"
    by (auto simp: code_words_def)
  then show ?thesis
  proof (induction ws arbitrary: t)
    case Nil
    then show ?case by simp
  next
    case (Cons w ws)
    then show ?case using strip_front_code_word [OF assms(1), of w] by simp
  qed
qed

lemma strip_front_empty_iff:
  assumes "prefix_code C"
  shows "strip_front C s = [] \<longleftrightarrow> code_words C s"
proof
  assume e: "strip_front C s = []"
  from strip_front_split [of s C] e show "code_words C s" by auto
next
  assume "code_words C s"
  from strip_front_words [OF assms this, of "[]"] show "strip_front C s = []"
    by (simp add: strip_front_Nil)
qed

text \<open>
  A string that is not dropped whole keeps what follows it, when what follows does not
  start with a byte that continues an encoding.
\<close>

lemma strip_front_append:
  assumes "prefix_code C" and "strip_front C a \<noteq> []" and "b \<noteq> []"
    and "\<forall>w \<in> set C. hd b \<notin> set (tl w)"
  shows "strip_front C (a @ b) = strip_front C a @ b"
proof -
  from strip_front_split [of a C] obtain t where
    t: "a = t @ strip_front C a" "code_words C t" by blast
  let ?r = "strip_front C a"
  have r: "strip_front C ?r = ?r"
    using strip_front_words [OF assms(1) t(2), of ?r] t(1) by simp
  have n: "find (\<lambda>w. w \<noteq> [] \<and> prefix w ?r) C = None"
  proof (cases "find (\<lambda>w. w \<noteq> [] \<and> prefix w ?r) C")
    case None
    then show ?thesis .
  next
    case (Some w)
    then have w: "w \<in> set C" "w \<noteq> []" "prefix w ?r"
      by (auto simp: find_Some_iff in_set_conv_nth)
    then obtain u where u: "?r = w @ u" by (auto simp: prefix_def)
    have "strip_front C ?r = strip_front C u"
      using strip_front_code_word [OF assms(1) w(1), of u] u by simp
    moreover from strip_front_split [of u C] have "length (strip_front C u) \<le> length u"
      by (metis length_append le_add2)
    ultimately have "length ?r \<le> length u" using r by simp
    then show ?thesis using u w(2) by simp
  qed
  have "find (\<lambda>w. w \<noteq> [] \<and> prefix w (?r @ b)) C = None"
  proof (rule ccontr)
    assume "find (\<lambda>w. w \<noteq> [] \<and> prefix w (?r @ b)) C \<noteq> None"
    then obtain w where w: "w \<in> set C" "w \<noteq> []" "prefix w (?r @ b)"
      by (auto simp: find_None_iff)
    from n w(1,2) have np: "\<not> prefix w ?r" by (auto simp: find_None_iff)
    from w(3) np obtain us where us: "w = ?r @ us" "prefix us b"
      by (auto simp: prefix_append)
    from np us(1) have "us \<noteq> []" by auto
    with us(2) have "hd us = hd b" by (auto simp: prefix_def)
    moreover have "hd us \<in> set (tl w)"
      using us(1) assms(2) \<open>us \<noteq> []\<close> by (cases ?r) auto
    ultimately show False using assms(4) w(1) by auto
  qed
  then have "strip_front C (?r @ b) = ?r @ b" by (rule strip_front_None)
  moreover have "strip_front C (a @ b) = strip_front C (?r @ b)"
    using strip_front_words [OF assms(1) t(2), of "?r @ b"] t(1) by (metis append.assoc)
  ultimately show ?thesis by simp
qed

lemma prefix_code_whitespace: "prefix_code whitespace"
  unfolding prefix_code_def whitespace_def by simp

lemma prefix_code_rev_whitespace: "prefix_code (map rev whitespace)"
  unfolding prefix_code_def whitespace_def by simp

lemma code_words_append:
  "code_words C a \<Longrightarrow> code_words C b \<Longrightarrow> code_words C (a @ b)"
proof -
  assume "code_words C a" and "code_words C b"
  then obtain us vs where "set us \<subseteq> set C" "a = concat us" "set vs \<subseteq> set C" "b = concat vs"
    by (auto simp: code_words_def)
  then show ?thesis
    unfolding code_words_def by (intro exI [of _ "us @ vs"]) simp
qed

lemma code_words_rev:
  assumes "code_words C s"
  shows "code_words (map rev C) (rev s)"
proof -
  from assms obtain ws where ws: "set ws \<subseteq> set C" "s = concat ws"
    by (auto simp: code_words_def)
  have "rev s = concat (map rev (rev ws))"
    using ws(2) by (simp add: rev_concat)
  moreover have "set (map rev (rev ws)) \<subseteq> set (map rev C)"
    using ws(1) by auto
  ultimately show ?thesis
    unfolding code_words_def by blast
qed

lemma code_words_rev_iff:
  "code_words (map rev C) (rev s) \<longleftrightarrow> code_words C s"
proof
  assume "code_words (map rev C) (rev s)"
  from code_words_rev [OF this] show "code_words C s"
    by (simp add: comp_def)
qed (rule code_words_rev)

lemma lstrip_empty_iff: "lstrip s = [] \<longleftrightarrow> code_words whitespace s"
  by (simp add: lstrip_def strip_front_empty_iff [OF prefix_code_whitespace])

lemma rstrip_empty_iff: "rstrip s = [] \<longleftrightarrow> code_words whitespace s"
  by (simp add: rstrip_def strip_front_empty_iff [OF prefix_code_rev_whitespace] code_words_rev_iff)

lemma rstrip_split: "\<exists>t. s = rstrip s @ t \<and> code_words whitespace t"
proof -
  from strip_front_split [of "rev s" "map rev whitespace"] obtain t where
    t: "rev s = t @ strip_front (map rev whitespace) (rev s)" "code_words (map rev whitespace) t"
    by blast
  from t(1) have "s = rstrip s @ rev t"
    unfolding rstrip_def by (metis rev_append rev_rev_ident)
  moreover have "code_words whitespace (rev t)"
    using t(2) code_words_rev_iff [of whitespace "rev t"] by simp
  ultimately show ?thesis by blast
qed

text \<open>A string is stripped to nothing exactly when it consists of white space.\<close>

lemma strip_empty_iff: "strip s = [] \<longleftrightarrow> code_words whitespace s"
proof
  assume "strip s = []"
  then have a: "code_words whitespace (rstrip s)"
    by (simp add: strip_def lstrip_empty_iff)
  from rstrip_split [of s] obtain t where "s = rstrip s @ t" "code_words whitespace t"
    by blast
  then show "code_words whitespace s"
    using code_words_append [OF a] by metis
next
  assume "code_words whitespace s"
  then have "rstrip s = []" by (simp add: rstrip_empty_iff)
  then show "strip s = []" by (simp add: strip_def lstrip_def strip_front_Nil)
qed

lemma strip_Nil: "strip [] = []"
  by (simp add: strip_def lstrip_def rstrip_def strip_front_Nil)

lemma lstrip_space: "w \<in> set whitespace \<Longrightarrow> lstrip (w @ s) = lstrip s"
  by (simp add: lstrip_def strip_front_code_word [OF prefix_code_whitespace])

lemma rstrip_space: "w \<in> set whitespace \<Longrightarrow> rstrip (s @ w) = rstrip s"
  by (simp add: rstrip_def strip_front_code_word [OF prefix_code_rev_whitespace])

lemma lstrip_keep:
  assumes "s \<noteq> []" and "hd s \<notin> set (map hd whitespace)"
  shows "lstrip s = s"
proof -
  have "find (\<lambda>w. w \<noteq> [] \<and> prefix w s) whitespace = None"
  proof (rule ccontr)
    assume "find (\<lambda>w. w \<noteq> [] \<and> prefix w s) whitespace \<noteq> None"
    then obtain w where w: "w \<in> set whitespace" "w \<noteq> []" "prefix w s"
      by (auto simp: find_None_iff)
    from w(2,3) have "hd w = hd s" by (auto simp: prefix_def)
    moreover have "hd w \<in> set (map hd whitespace)" using w(1) by simp
    ultimately show False using assms(2) by metis
  qed
  then show ?thesis
    unfolding lstrip_def by (rule strip_front_None)
qed

lemma rstrip_keep:
  assumes "s \<noteq> []" and "last s \<notin> set (map last whitespace)"
  shows "rstrip s = s"
proof -
  have "find (\<lambda>w. w \<noteq> [] \<and> prefix w (rev s)) (map rev whitespace) = None"
  proof (rule ccontr)
    assume "find (\<lambda>w. w \<noteq> [] \<and> prefix w (rev s)) (map rev whitespace) \<noteq> None"
    then obtain w where w: "w \<in> set (map rev whitespace)" "w \<noteq> []" "prefix w (rev s)"
      by (auto simp: find_None_iff)
    from w(1) obtain v where v: "v \<in> set whitespace" "w = rev v" by auto
    from w(2,3) have "hd w = hd (rev s)" by (auto simp: prefix_def)
    then have "last v = last s"
      using v(2) w(2) assms(1) by (simp add: hd_rev)
    moreover have "last v \<in> set (map last whitespace)" using v(1) by simp
    ultimately show False using assms(2) by metis
  qed
  then have "strip_front (map rev whitespace) (rev s) = rev s"
    by (rule strip_front_None)
  then show ?thesis by (simp add: rstrip_def)
qed

lemma lstrip_append:
  assumes "lstrip a \<noteq> []" and "b \<noteq> []" and "\<forall>w \<in> set whitespace. hd b \<notin> set (tl w)"
  shows "lstrip (a @ b) = lstrip a @ b"
  using strip_front_append [OF prefix_code_whitespace, of a b] assms
  by (simp add: lstrip_def)


lemma strip_keep:
  assumes "s \<noteq> []" and "hd s \<notin> set (map hd whitespace)"
    and "last s \<notin> set (map last whitespace)"
  shows "strip s = s"
  using assms by (simp add: strip_def rstrip_keep lstrip_keep)

lemma strip_line:
  assumes "s \<noteq> []" and "hd s \<notin> set (map hd whitespace)"
    and "last s \<notin> set (map last whitespace)"
  shows "strip (s @ nl) = s"
proof -
  have "nl \<in> set whitespace" by (simp add: whitespace_def)
  then have "rstrip (s @ nl) = rstrip s" by (rule rstrip_space)
  then show ?thesis
    using strip_keep [OF assms] by (simp add: strip_def)
qed

lemma strip_spaces: "strip ''   '' = []"
proof -
  have "code_words whitespace ''   ''"
    unfolding code_words_def
    by (intro exI [of _ "['' '', '' '', '' '']"]) (simp add: whitespace_def)
  then show ?thesis by (simp add: strip_empty_iff)
qed

subsection \<open>The texts of the chat endpoint\<close>

lemma string_of_nat_90: "string_of_nat 90 = ''90''"
  by (simp add: string_of_nat.simps digit_char_def)

lemma string_of_nat_400: "string_of_nat 400 = ''400''"
  by (simp add: string_of_nat.simps digit_char_def)

lemma timeout_note_ends:
  "timeout_note \<noteq> [] \<and> last timeout_note \<notin> set (map last whitespace)
   \<and> (\<forall>w \<in> set whitespace. hd timeout_note \<notin> set (tl w))"
  by (simp add: timeout_note_def whitespace_def)

lemma strip_with_note:
  assumes "strip b \<noteq> []"
  shows "strip (b @ timeout_note) = lstrip b @ timeout_note"
proof -
  have nb: "lstrip b \<noteq> []"
    using assms by (simp add: strip_empty_iff lstrip_empty_iff)
  have "b @ timeout_note \<noteq> []" and "last (b @ timeout_note) \<notin> set (map last whitespace)"
    using timeout_note_ends by simp_all
  then have "rstrip (b @ timeout_note) = b @ timeout_note"
    by (rule rstrip_keep)
  moreover have "lstrip (b @ timeout_note) = lstrip b @ timeout_note"
    using timeout_note_ends by (intro lstrip_append [OF nb]) simp_all
  ultimately show ?thesis
    by (simp add: strip_def)
qed

lemma timeout_message_nonempty: "timeout_message \<noteq> []"
  by (simp add: timeout_message_def stopwatch_def)

lemma strip_timeout_message: "strip timeout_message = timeout_message"
proof -
  have "last timeout_message \<notin> set (map last whitespace)"
    by (simp add: timeout_message_def whitespace_def)
  with timeout_message_nonempty have r: "rstrip timeout_message = timeout_message"
    by (rule rstrip_keep)
  have "find (\<lambda>w. w \<noteq> [] \<and> prefix w timeout_message) whitespace = None"
    by (simp add: timeout_message_def stopwatch_def whitespace_def)
  then have "lstrip timeout_message = timeout_message"
    unfolding lstrip_def by (rule strip_front_None)
  with r show ?thesis
    by (simp add: strip_def)
qed



text \<open>A call that passes the input check and obtains its session returns a response.\<close>

lemma chat_ok:
  assumes "strip (message msg) \<noteq> []" and "session_id msg = Some sid"
    and "services_exn w = None" and "new_session_id w = Inr i"
  shows "chat w msg =
      ([CreateSession (''user_'' @ sid), RunAsync i (''user_'' @ sid) (message msg)],
       Inr \<lparr>response = (if strip (run_with_timeout w) = [] then fallback_message
                          else strip (run_with_timeout w)),
            response_session_id = sid, status = ''success''\<rparr>)"
  using assms by (simp add: chat_def chat_body_def Let_def)

text \<open>
  A request that sends \<open>null\<close> as session identifier never gets a response: building
  the \<open>ChatResponse\<close> fails, and the outer handler answers with status 500.
\<close>

lemma chat_null_session_id:
  "session_id msg = None \<Longrightarrow> \<exists>l d. chat w msg = (l, Inl (HTTPException 500 d))"
  by (auto simp: chat_def chat_body_def Let_def split: option.splits sum.splits)

lemma chat_null_session_id_status:
  "session_id msg = None \<Longrightarrow> raised_status (snd (chat w msg)) = Some 500"
  using chat_null_session_id [of msg w] by auto

lemma strip_hi: "strip ''hi'' = ''hi''"
  by (rule strip_keep) (simp_all add: whitespace_def)

lemma strip_compare_prices: "strip ''compare prices'' = ''compare prices''"
  by (rule strip_keep) (simp_all add: whitespace_def)

lemma wait_hello_world:
  "wait_for_run hello_world [] = (''Hello \<newline>World\<newline>'', Inl (TimeoutError []))"
  by (simp add: hello_world_def run_world_def text_event_def wait_for_run_def event_text_def)

lemma strip_hello_world: "strip ''Hello \<newline>World\<newline>'' = ''Hello \<newline>World''"
  using strip_line [of "''Hello \<newline>World''"] by (simp add: whitespace_def)

lemma lstrip_hello_world: "lstrip ''Hello \<newline>World\<newline>'' = ''Hello \<newline>World\<newline>''"
  by (rule lstrip_keep) (simp_all add: whitespace_def)

text \<open>The call of the example: two pieces of text, then the deadline.\<close>

lemma chat_hello_world:
  "chat hello_world \<lparr>message = ''hi'', session_id = Some ''default''\<rparr> =
     ([CreateSession ''user_default'', RunAsync ''s-1'' ''user_default'' ''hi''],
      Inr \<lparr>response = ''Hello \<newline>World\<newline>'' @ timeout_note,
           response_session_id = ''default'', status = ''success''\<rparr>)"
proof -
  have b: "strip ''Hello \<newline>World\<newline>'' \<noteq> []"
    by (simp add: strip_hello_world)
  have r: "run_with_timeout hello_world = ''Hello \<newline>World\<newline>'' @ timeout_note"
    using b by (simp add: run_with_timeout_def wait_hello_world)
  have s: "strip (run_with_timeout hello_world) = ''Hello \<newline>World\<newline>'' @ timeout_note"
    unfolding r using strip_with_note [OF b] lstrip_hello_world by simp
  have m: "strip (message \<lparr>message = ''hi'', session_id = Some ''default''\<rparr>) \<noteq> []"
    by (simp add: strip_hi)
  show ?thesis
    using chat_ok [OF m, of "''default''" hello_world "''s-1''"] s
    by (simp add: hello_world_def run_world_def)
qed

subsection \<open>The connection manager\<close>

lemma cleanup_resets: "cleanup m = Inr init_manager"
  by (simp add: cleanup_def init_manager_def split: option.split sum.split)

lemma validate_secrets: "validate_environment env_secrets = Inr ()"
  by (simp add: validate_environment_def env_secrets_def getenv_def)

text \<open>Whenever \<open>connect\<close> returns a handle, the manager it leaves is connected to it.\<close>

lemma connect_returns_connected:
  "connect w ev m = Inr (Some h, m', l) \<Longrightarrow> is_connected m' \<and> toolset m' = Some h"
  by (auto simp: connect_def connect_try_def connect_except_def cleanup_def
        test_connection_def Let_def
      split: if_splits sum.splits option.splits prod.splits)

text \<open>
  In the latched state (an attempt was made, and the manager is not connected)
  \<open>connect\<close> returns \<open>None\<close> and does nothing else.
\<close>

lemma connect_latched:
  "connection_attempted m \<Longrightarrow> \<not> is_connected m \<Longrightarrow> connect w ev m = Inr (None, m, [])"
  by (simp add: connect_def)

text \<open>A fatal failure ends in \<open>_cleanup\<close>, which also clears the latch.\<close>

lemma connect_except_fatal:
  "\<not> list_roots_error e \<Longrightarrow> connect_except e m = Inr (None, init_manager, [Cleanup])"
  by (simp add: connect_except_def cleanup_resets)

text \<open>
  The handler tolerates the list-roots error only when the toolset is set; without a
  toolset every exception is fatal.
\<close>

lemma connect_except_tolerated:
  "list_roots_error e \<Longrightarrow> toolset m = Some h \<Longrightarrow>
   connect_except e m = Inr (Some h, m\<lparr>is_connected := True\<rparr>, [])"
  by (simp add: connect_except_def)

lemma connect_except_no_toolset:
  "toolset m = None \<Longrightarrow> connect_except e m = Inr (None, init_manager, [Cleanup])"
  by (simp add: connect_except_def cleanup_resets)

text \<open>
  The \<open>try\<close> block assigns the toolset last, and nothing after the assignment raises:
  when it raises from a manager without toolset, there is still no toolset.
\<close>

lemma connect_try_raises_without_toolset:
  "toolset m = None \<Longrightarrow> connect_try w ev m = (m1, l, Inl e) \<Longrightarrow> toolset m1 = None"
  by (auto simp: connect_try_def test_connection_def Let_def
      split: if_splits sum.splits option.splits prod.splits)

lemma connect_from_init:
  assumes "connect w ev init_manager = Inr (r, m', l)"
  shows "m' = init_manager \<or> (is_connected m' \<and> toolset m' \<noteq> None)"
proof (cases "connect_try w ev (init_manager\<lparr>connection_attempted := True\<rparr>)")
  case (fields m1 l1 res)
  show ?thesis
  proof (cases res)
    case (Inl e)
    have t: "toolset (init_manager\<lparr>connection_attempted := True\<rparr>) = None"
      by (simp add: init_manager_def)
    have c: "connect_try w ev (init_manager\<lparr>connection_attempted := True\<rparr>) = (m1, l1, Inl e)"
      using fields Inl by simp
    have "toolset m1 = None"
      using t c by (rule connect_try_raises_without_toolset)
    then have "connect_except e m1 = Inr (None, init_manager, [Cleanup])"
      by (rule connect_except_no_toolset)
    then show ?thesis
      using assms fields Inl by (simp add: connect_def init_manager_def)
  next
    case (Inr h)
    then have "is_connected m1 \<and> toolset m1 \<noteq> None"
      using fields
      by (auto simp: connect_try_def test_connection_def Let_def init_manager_def
          split: if_splits sum.splits option.splits prod.splits)
    then show ?thesis
      using assms fields Inr by (simp add: connect_def init_manager_def)
  qed
qed

text \<open>
  Every state of the manager is the initial one or a connected one with a toolset: a
  manager that is not connected has no toolset.
\<close>

lemma reachable_states:
  "reachable m \<Longrightarrow> m = init_manager \<or> (is_connected m \<and> toolset m \<noteq> None)"
proof (induction rule: reachable.induct)
  case reachable_init
  then show ?case by simp
next
  case (reachable_connect m w ev r m' l)
  from reachable_connect.IH show ?case
  proof
    assume "m = init_manager"
    then show ?thesis
      using reachable_connect.hyps(2) connect_from_init by blast
  next
    assume "is_connected m \<and> toolset m \<noteq> None"
    then show ?thesis
      using reachable_connect.hyps(2) by (simp add: connect_def)
  qed
next
  case (reachable_disconnect m m')
  then show ?case by (simp add: disconnect_def cleanup_resets)
qed

text \<open>
  So in every state of the manager an attempt whose \<open>try\<close> block raises, whatever the
  exception says, ends in \<open>_cleanup\<close> and returns \<open>None\<close>.
\<close>

lemma reachable_failure_is_fatal:
  assumes "reachable m" and "\<not> is_connected_prop m"
    and "connect_try w ev (m\<lparr>connection_attempted := True\<rparr>) = (m1, l, Inl e)"
  shows "connect w ev m = Inr (None, init_manager, l @ [Cleanup])"
proof -
  from reachable_states [OF assms(1)] assms(2) have m: "m = init_manager"
    by (auto simp: is_connected_prop_def)
  then have "toolset (m\<lparr>connection_attempted := True\<rparr>) = None"
    by (simp add: init_manager_def)
  then have "toolset m1 = None"
    using assms(3) by (rule connect_try_raises_without_toolset)
  then have "connect_except e m1 = Inr (None, init_manager, [Cleanup])"
    by (rule connect_except_no_toolset)
  then show ?thesis
    using assms(3) m by (simp add: connect_def init_manager_def)
qed

section \<open>The claims\<close>

text \<open>
  C1 (latch after a fatal failure). The claim: after a \<open>connect\<close> that ends in a fatal
  failure, every further \<open>connect\<close> without a \<open>disconnect\<close> in between returns \<open>None\<close> at
  once, without validation and without a new toolset. The code does not do that: the
  fatal path ends in \<open>_cleanup\<close>, which sets \<open>_connection_attempted\<close> back to \<open>False\<close>,
  so the manager is in its initial state again. Here the toolset constructor fails; the
  next call validates and constructs again, and returns a handle once the constructor
  works.
\<close>

theorem connect_fatal_then_retries:
  "connect world_spawn_fails env_secrets init_manager =
     Inr (None, init_manager, [Validation, NewParams, NewToolset, Cleanup])
   \<and> connect_again (connect world_spawn_fails env_secrets init_manager)
        world_spawn_fails env_secrets =
     Inr (None, init_manager, [Validation, NewParams, NewToolset, Cleanup])
   \<and> connect_again (connect world_spawn_fails env_secrets init_manager)
        world_ok env_secrets =
     Inr (Some 1, manager_connected, [Validation, NewParams, NewToolset])"
proof -
  have t1: "connect_try world_spawn_fails env_secrets (init_manager\<lparr>connection_attempted := True\<rparr>) =
      (init_manager\<lparr>connection_attempted := True,
                    connection_params := Some params_npx\<rparr>,
       [Validation, NewParams, NewToolset], Inl (OtherException ''npx: command not found''))"
    by (simp add: connect_try_def validate_secrets world_spawn_fails_def init_manager_def
        params_npx_def)
  have nl: "\<not> list_roots_error (OtherException ''npx: command not found'')"
    by (simp add: list_roots_error_def)
  have c1: "connect world_spawn_fails env_secrets init_manager =
      Inr (None, init_manager, [Validation, NewParams, NewToolset, Cleanup])"
    by (simp add: connect_def t1 connect_except_fatal [OF nl]) (simp add: init_manager_def)
  have t2: "connect_try world_ok env_secrets (init_manager\<lparr>connection_attempted := True\<rparr>) =
      (manager_connected, [Validation, NewParams, NewToolset], Inr (Some 1))"
    by (simp add: connect_try_def validate_secrets world_ok_def init_manager_def
        params_npx_def manager_connected_def test_connection_def)
  have c2: "connect world_ok env_secrets init_manager =
      Inr (Some 1, manager_connected, [Validation, NewParams, NewToolset])"
    by (simp add: connect_def t2) (simp add: init_manager_def)
  show ?thesis
    by (simp add: c1 c2 connect_again_def)
qed


text \<open>
  C3 (time-out keeps the partial buffer), as the claim states its example: a stream that
  yields "Hello " and then "World" before the deadline is said to give a response that
  contains "Hello World". The code ends every piece with a line feed, so the response
  is "Hello ", line feed, "World", line feed, and the notice; "Hello World" does not
  occur in it.
\<close>

theorem chat_hello_world_counterexample:
  "chat hello_world \<lparr>message = ''hi'', session_id = Some ''default''\<rparr> =
     ([CreateSession ''user_default'', RunAsync ''s-1'' ''user_default'' ''hi''],
      Inr \<lparr>response = ''Hello \<newline>World\<newline>'' @ timeout_note,
           response_session_id = ''default'', status = ''success''\<rparr>)
   \<and> \<not> py_in ''Hello World'' (''Hello \<newline>World\<newline>'' @ timeout_note)"
proof -
  have n: "\<not> py_in ''Hello World'' (''Hello \<newline>World\<newline>'' @ timeout_note)"
    by (simp add: timeout_note_def stopwatch_def string_of_nat_90 timeout_seconds_def)
  show ?thesis
    using chat_hello_world n by simp
qed

text \<open>
  C3, amended. For every chat request with a message that is not blank and a string as
  session identifier, whose session was created and whose wait for the events ends
  with the time-out, the call returns a response with status "success": when the
  trimmed buffer is not empty, the response is the buffer without its leading white
  space, followed by the fixed notice; when it is empty, the response is the fixed
  time-out message. For the stream that yields "Hello " and then "World" before the
  deadline, the response is "Hello ", line feed, "World", line feed, and the notice.
\<close>

theorem chat_timeout_partial:
  assumes "strip (message msg) \<noteq> []" and "session_id msg = Some sid"
    and "services_exn w = None" and "new_session_id w = Inr i"
    and "wait_for_run w [] = (buf, Inl x)" and "is_timeout x"
  shows "chat w msg =
      ([CreateSession (''user_'' @ sid), RunAsync i (''user_'' @ sid) (message msg)],
       Inr \<lparr>response = (if strip buf \<noteq> [] then lstrip buf @ timeout_note else timeout_message),
            response_session_id = sid, status = ''success''\<rparr>)
     \<and> chat hello_world \<lparr>message = ''hi'', session_id = Some ''default''\<rparr> =
      ([CreateSession ''user_default'', RunAsync ''s-1'' ''user_default'' ''hi''],
       Inr \<lparr>response = ''Hello \<newline>World\<newline>'' @ timeout_note,
            response_session_id = ''default'', status = ''success''\<rparr>)"
proof -
  have r: "run_with_timeout w = (if strip buf \<noteq> [] then buf @ timeout_note else timeout_message)"
    using assms(5,6) by (simp add: run_with_timeout_def)
  have s: "strip (run_with_timeout w) =
      (if strip buf \<noteq> [] then lstrip buf @ timeout_note else timeout_message)"
    unfolding r by (simp add: strip_with_note strip_timeout_message)
  have n: "strip (run_with_timeout w) \<noteq> []"
    unfolding s using timeout_note_ends timeout_message_nonempty by simp
  have "chat w msg =
      ([CreateSession (''user_'' @ sid), RunAsync i (''user_'' @ sid) (message msg)],
       Inr \<lparr>response = (if strip buf \<noteq> [] then lstrip buf @ timeout_note else timeout_message),
            response_session_id = sid, status = ''success''\<rparr>)"
    using chat_ok [OF assms(1-4)] n s by simp
  then show ?thesis
    using chat_hello_world by simp
qed

theorem chat_timeout_partial_witness:
  "wait_for_run (run_world [text_event ''  lead''] DeadlineElapsed) [] =
     (''  lead\<newline>'', Inl (TimeoutError []))
   \<and> chat (run_world [text_event ''  lead''] DeadlineElapsed)
        \<lparr>message = ''hi'', session_id = Some ''default''\<rparr> =
     ([CreateSession ''user_default'', RunAsync ''s-1'' ''user_default'' ''hi''],
      Inr \<lparr>response = ''lead\<newline>'' @ timeout_note,
           response_session_id = ''default'', status = ''success''\<rparr>)
   \<and> chat (run_world [] DeadlineElapsed) \<lparr>message = ''hi'', session_id = Some ''default''\<rparr> =
     ([CreateSession ''user_default'', RunAsync ''s-1'' ''user_default'' ''hi''],
      Inr \<lparr>response = timeout_message,
           response_session_id = ''default'', status = ''success''\<rparr>)"
proof -
  let ?m = "\<lparr>message = ''hi'', session_id = Some ''default''\<rparr>"
  let ?w = "run_world [text_event ''  lead''] DeadlineElapsed"
  let ?v = "run_world [] DeadlineElapsed"
  have m: "strip (message ?m) \<noteq> []"
    by (simp add: strip_hi)
  have sid: "session_id ?m = Some ''default''"
    by simp
  have sv: "services_exn ?w = None" and ns: "new_session_id ?w = Inr ''s-1''"
    by (simp_all add: run_world_def)
  have w: "wait_for_run ?w [] = (''  lead\<newline>'', Inl (TimeoutError []))"
    by (simp add: run_world_def text_event_def wait_for_run_def event_text_def)
  have t: "is_timeout (TimeoutError [])"
    by simp
  have sp: "'' '' \<in> set whitespace"
    by (simp add: whitespace_def)
  have k: "lstrip ''lead\<newline>'' = ''lead\<newline>''"
    by (rule lstrip_keep) (simp_all add: whitespace_def)
  have l: "lstrip ''  lead\<newline>'' = ''lead\<newline>''"
    using lstrip_space [OF sp, of "'' lead\<newline>''"] lstrip_space [OF sp, of "''lead\<newline>''"] k
    by simp
  have "strip (''  lead'' @ nl) = lstrip (rstrip ''  lead'')"
    using rstrip_space [of nl "''  lead''"] by (simp add: strip_def whitespace_def)
  moreover have "rstrip ''  lead'' = ''  lead''"
    by (rule rstrip_keep) (simp_all add: whitespace_def)
  moreover have "lstrip ''  lead'' = ''lead''"
    using lstrip_space [OF sp, of "'' lead''"] lstrip_space [OF sp, of "''lead''"]
      lstrip_keep [of "''lead''"]
    by (simp add: whitespace_def)
  ultimately have b: "strip ''  lead\<newline>'' \<noteq> []"
    by simp
  have sv0: "services_exn ?v = None" and ns0: "new_session_id ?v = Inr ''s-1''"
    by (simp_all add: run_world_def)
  have w0: "wait_for_run ?v [] = ([], Inl (TimeoutError []))"
    by (simp add: run_world_def wait_for_run_def)
  show ?thesis
    using chat_timeout_partial [OF m sid sv ns w t]
      chat_timeout_partial [OF m sid sv0 ns0 w0 t] w b l strip_Nil
    by simp
qed

text \<open>
  C4 (empty message). The claim: a call whose message is empty or only white space
  fails with a client error (4xx) before a session is created. In the code the
  \<open>HTTPException(status_code=400)\<close> is raised inside the outer \<open>try\<close>, whose handler
  \<open>except Exception\<close> catches it and raises \<open>HTTPException(status_code=500)\<close>: the
  caller gets a server error. No session is created and the runner is not started.
\<close>

theorem chat_empty_message_is_500:
  "chat w \<lparr>message = [], session_id = Some ''default''\<rparr> =
     ([], Inl (HTTPException 500 ''Internal server error: 400: No message provided''))
   \<and> chat w \<lparr>message = ''   '', session_id = Some ''default''\<rparr> =
     ([], Inl (HTTPException 500 ''Internal server error: 400: No message provided''))"
  by (simp add: chat_def chat_body_def strip_Nil strip_spaces string_of_nat_400)

text \<open>
  C5 (disconnect). From every state of the manager, also one whose process fails to
  terminate, \<open>disconnect\<close> returns without raising and leaves the manager in its initial
  state (toolset, process and connection parameters \<open>None\<close>, both flags false); a second
  \<open>disconnect\<close> right after leaves the same state.
\<close>

theorem disconnect_resets:
  "disconnect m = Inr init_manager
   \<and> disconnect_again (disconnect m) = disconnect m
   \<and> disconnect manager_stuck_process = Inr init_manager"
  by (simp add: disconnect_def disconnect_again_def cleanup_resets)

text \<open>
  C6 (reuse). In every state in which the manager is connected and holds a handle,
  \<open>connect\<close> returns that handle, leaves every field of the manager as it is, and
  constructs nothing; so does every later call, whatever the environment and the tool
  library would do.
\<close>

theorem connect_reuse:
  assumes "is_connected m" and "toolset m = Some h"
  shows "connect w ev m = Inr (Some h, m, [])
       \<and> connect_again (connect w ev m) w' ev' = Inr (Some h, m, [])"
  using assms by (simp add: connect_def connect_again_def)

theorem connect_reuse_witness:
  "is_connected manager_connected \<and> toolset manager_connected = Some 1
   \<and> connect world_spawn_fails (map_of []) manager_connected = Inr (Some 1, manager_connected, [])
   \<and> connect_again (connect world_spawn_fails (map_of []) manager_connected)
        world_ok env_secrets = Inr (Some 1, manager_connected, [])"
proof -
  have a: "is_connected manager_connected" and b: "toolset manager_connected = Some 1"
    by (simp_all add: manager_connected_def)
  show ?thesis
    using connect_reuse [OF a b, of world_spawn_fails "map_of []" world_ok env_secrets] a b
    by blast
qed







text \<open>
  C9 (environment builder), as the claim states it: an entry whose source value is
  absent is omitted and never emitted as an empty string, in particular for the zone
  identifier, the runtime-mode flag and the search path. In the empty environment the
  search path is absent and the result has the entry \<open>PATH\<close> with the empty string;
  the zone identifier and the runtime-mode flag are absent and the result has their
  entries with the defaults.
\<close>

theorem create_mcp_environment_counterexample:
  "getenv (map_of []) ''PATH'' = None
   \<and> map_of (create_mcp_environment (map_of [])) ''PATH'' = Some []
   \<and> create_mcp_environment (map_of []) =
       [(''WEB_UNLOCKER_ZONE'', ''web_unlocker1''), (''NODE_ENV'', ''production''),
        (''PATH'', []), (''NPM_CONFIG_REGISTRY'', ''https://registry.npmjs.org/''),
        (''NODE_OPTIONS'', ''--max-old-space-size=2048'')]"
  by (simp add: create_mcp_environment_def base_env_def getenv_def getenv_default_def)

text \<open>
  C9, amended. The environment builder is a function of the environment alone. The
  entries of the two required secrets (\<open>API_TOKEN\<close> and \<open>BRIGHTDATA_API_TOKEN\<close> from the
  API token, \<open>BROWSER_AUTH\<close> from the browser credential) are present exactly when the
  source variable is, with its value, and omitted otherwise. The zone identifier and
  the runtime-mode flag are always present, with their fixed defaults when the source
  is absent; the search path is always present, as the empty string when the source is
  absent; the two fixed values are always present.
\<close>

theorem create_mcp_environment_entries:
  "map_of (create_mcp_environment ev) ''API_TOKEN'' = getenv ev ''BRIGHTDATA_API_TOKEN''
   \<and> map_of (create_mcp_environment ev) ''BRIGHTDATA_API_TOKEN'' = getenv ev ''BRIGHTDATA_API_TOKEN''
   \<and> map_of (create_mcp_environment ev) ''BROWSER_AUTH'' = getenv ev ''BROWSER_AUTH''
   \<and> map_of (create_mcp_environment ev) ''WEB_UNLOCKER_ZONE'' =
       Some (case getenv ev ''WEB_UNLOCKER_ZONE'' of None \<Rightarrow> ''web_unlocker1'' | Some z \<Rightarrow> z)
   \<and> map_of (create_mcp_environment ev) ''NODE_ENV'' =
       Some (case getenv ev ''NODE_ENV'' of None \<Rightarrow> ''production'' | Some n \<Rightarrow> n)
   \<and> map_of (create_mcp_environment ev) ''PATH'' =
       Some (case getenv ev ''PATH'' of None \<Rightarrow> [] | Some p \<Rightarrow> p)
   \<and> map_of (create_mcp_environment ev) ''NPM_CONFIG_REGISTRY'' = Some ''https://registry.npmjs.org/''
   \<and> map_of (create_mcp_environment ev) ''NODE_OPTIONS'' = Some ''--max-old-space-size=2048''"
proof (cases "ev ''BRIGHTDATA_API_TOKEN''")
  case None
  then show ?thesis
    by (cases "ev ''BROWSER_AUTH''")
       (simp_all add: create_mcp_environment_def base_env_def getenv_def getenv_default_def)
next
  case (Some t)
  then show ?thesis
    by (cases "ev ''BROWSER_AUTH''")
       (simp_all add: create_mcp_environment_def base_env_def getenv_def getenv_default_def)
qed

text \<open>
  C10 (session identifier of the response). Whenever \<open>chat\<close> returns a response, its
  session identifier is the one of the request (the string \<open>"default"\<close> when the request
  left the field out), whatever identifier the session service gave the session it
  created; and the call created one session, for the user derived from the request's
  identifier, and ran the agent in that session.
\<close>

theorem chat_session_id:
  assumes "chat w msg = (l, Inr r)"
  shows "session_id msg = Some (response_session_id r)
       \<and> (\<exists>i. new_session_id w = Inr i
              \<and> l = [CreateSession (''user_'' @ response_session_id r),
                      RunAsync i (''user_'' @ response_session_id r) (message msg)])
       \<and> session_id (ChatMessage_new txt Omitted) = Some ''default''
       \<and> session_id (ChatMessage_new txt (Given s)) = Some s"
  using assms
  by (cases "session_id msg")
     (auto simp: chat_def chat_body_def Let_def split: if_splits option.splits sum.splits)

theorem chat_session_id_witness:
  "chat (run_world [text_event ''Price: $10''] Completed) (ChatMessage_new ''compare prices'' Omitted) =
     ([CreateSession ''user_default'', RunAsync ''s-1'' ''user_default'' ''compare prices''],
      Inr \<lparr>response = ''Price: $10'', response_session_id = ''default'', status = ''success''\<rparr>)
   \<and> session_id (ChatMessage_new ''compare prices'' Omitted) = Some ''default''
   \<and> new_session_id (run_world [text_event ''Price: $10''] Completed) = Inr ''s-1''"
proof -
  let ?w = "run_world [text_event ''Price: $10''] Completed"
  let ?m = "ChatMessage_new ''compare prices'' Omitted"
  have m: "strip (message ?m) \<noteq> []"
    by (simp add: strip_compare_prices)
  have sid: "session_id ?m = Some ''default''"
    by simp
  have sv: "services_exn ?w = None" and ns: "new_session_id ?w = Inr ''s-1''"
    by (simp_all add: run_world_def)
  have r: "run_with_timeout ?w = ''Price: $10\<newline>''"
    by (simp add: run_with_timeout_def run_world_def text_event_def wait_for_run_def event_text_def)
  have s: "strip ''Price: $10\<newline>'' = ''Price: $10''"
    using strip_line [of "''Price: $10''"] by (simp add: whitespace_def)
  have c: "chat ?w ?m =
     ([CreateSession ''user_default'', RunAsync ''s-1'' ''user_default'' ''compare prices''],
      Inr \<lparr>response = ''Price: $10'', response_session_id = ''default'', status = ''success''\<rparr>)"
    using chat_ok [OF m sid sv ns] by (simp add: r s)
  show ?thesis
    using chat_session_id [OF c] c ns by simp
qed

end
